theory Spec2Isabelle
  imports Complex_Main "HOL-Library.Sublist"
begin

section \<open>Data model\<close>

text \<open>
  The record model \<open>OscarFilm\<close> of \<open>selenium_crawler.py\<close> (re-exported by the API
  module), the two enumerations of the API and the job snapshot \<open>CrawlJobResult\<close>.
\<close>

record OscarFilm =
  title :: string
  year :: int
  nominations :: int
  awards :: int
  best_picture :: bool

datatype JobStatusEnum = pending | running | completed | failed

datatype CrawlModeEnum = selenium | ajax

record CrawlJobResult =
  job_id :: string
  status :: JobStatusEnum
  created_at :: nat
  updated_at :: nat
  total_films :: int
  data_file :: "string option"
  error :: "string option"
  films :: "OscarFilm list option"

text \<open>
  Exceptions are values. The constructors are the exception classes that the modelled
  code raises itself or receives from \<open>httpx\<close>, \<open>json\<close>, \<open>pydantic\<close>, Selenium and the
  file system; all of them derive from Python's \<open>Exception\<close>.
\<close>

datatype exc =
    RequestError string
  | HTTPStatusError nat
  | JSONDecodeError string
  | TypeError string
  | ValidationError string
  | ValueError string
  | RuntimeError string
  | TimeoutException
  | NoSuchElementException string
  | WebDriverException string
  | OSError string
  | KeyError string

section \<open>Strings\<close>

text \<open>Python's \<open>str(n)\<close> on an integer: decimal digits, with a minus sign when negative.\<close>

fun digits :: "nat \<Rightarrow> string" where
  "digits n =
     (if n < 10 then [''0123456789'' ! n]
      else digits (n div 10) @ [''0123456789'' ! (n mod 10)])"

declare digits.simps [simp del]

definition str_int :: "int \<Rightarrow> string" where
  "str_int i = (if i < 0 then CHR ''-'' # digits (nat (- i)) else digits (nat i))"

text \<open>\<open>sep.join(xs)\<close>.\<close>

fun join :: "string \<Rightarrow> string list \<Rightarrow> string" where
  "join sep [] = []"
| "join sep [x] = x"
| "join sep (x # y # ys) = x @ sep @ join sep (y # ys)"

text \<open>
  The characters that \<open>str.isspace\<close> accepts among the first 256 code points; they
  are what \<open>str.strip()\<close> and \<open>str.split()\<close> treat as white space.
\<close>

definition is_space :: "char \<Rightarrow> bool" where
  "is_space c =
     (let n = (of_char c :: nat)
      in (9 \<le> n \<and> n \<le> 13) \<or> (28 \<le> n \<and> n \<le> 32) \<or> n = 133 \<or> n = 160)"

definition strip :: "string \<Rightarrow> string" where
  "strip s = rev (dropWhile is_space (rev (dropWhile is_space s)))"

fun split_from :: "string \<Rightarrow> string \<Rightarrow> string list" where
  "split_from w [] = (if w = [] then [] else [w])"
| "split_from w (c # cs) =
     (if is_space c then (if w = [] then split_from [] cs else w # split_from [] cs)
      else split_from (w @ [c]) cs)"

text \<open>\<open>s.split()\<close>: the maximal runs of characters that are not white space.\<close>

definition split_ws :: "string \<Rightarrow> string list" where
  "split_ws s = split_from [] s"

section \<open>Direct fetch: \<open>fetch_year\<close> of the API\<close>

text \<open>
  What one \<open>client.get\<close> call gives back: it raises, or it returns a response with a
  status code and a body. The body is what \<open>response.json()\<close> makes of it: not JSON at
  all, a JSON value that cannot be iterated, or a sequence of raw items.
\<close>

datatype 'raw payload = Malformed string | NotIterable string | Decoded "'raw list"

datatype 'raw reply = Raised exc | Response nat "'raw payload"

text \<open>
  \<open>Response.raise_for_status()\<close> of \<open>httpx\<close> raises \<open>HTTPStatusError\<close> unless the
  status is a success status, 200 to 299.
\<close>

definition is_success :: "nat \<Rightarrow> bool" where
  "is_success code = (200 \<le> code \<and> code \<le> 299)"

definition raise_for_status :: "nat \<Rightarrow> exc option" where
  "raise_for_status code = (if is_success code then None else Some (HTTPStatusError code))"

text \<open>
  The comprehension \<open>[OscarFilm.model_validate(item) for item in raw_items]\<close>: items
  are validated in order and the first failure ends the comprehension. The validation
  itself is \<open>pydantic\<close>'s and is a parameter of the model.
\<close>

fun validate_all :: "('raw \<Rightarrow> exc + OscarFilm) \<Rightarrow> 'raw list \<Rightarrow> exc + OscarFilm list" where
  "validate_all model_validate [] = Inr []"
| "validate_all model_validate (item # items) =
     (case model_validate item of
        Inl e \<Rightarrow> Inl e
      | Inr film \<Rightarrow>
          (case validate_all model_validate items of
             Inl e \<Rightarrow> Inl e
           | Inr rest \<Rightarrow> Inr (film # rest)))"

text \<open>
  The body of the \<open>try\<close> block of one attempt: \<open>raise_for_status\<close>, then
  \<open>response.json()\<close> (a \<open>JSONDecodeError\<close> on a body that is not JSON), then the
  comprehension (a \<open>TypeError\<close> on a value that cannot be iterated).
\<close>

definition attempt_body :: "('raw \<Rightarrow> exc + OscarFilm) \<Rightarrow> 'raw reply \<Rightarrow> exc + OscarFilm list" where
  "attempt_body model_validate r =
     (case r of
        Raised e \<Rightarrow> Inl e
      | Response code body \<Rightarrow>
          (case raise_for_status code of
             Some e \<Rightarrow> Inl e
           | None \<Rightarrow>
               (case body of
                  Malformed m \<Rightarrow> Inl (JSONDecodeError m)
                | NotIterable m \<Rightarrow> Inl (TypeError m)
                | Decoded raw_items \<Rightarrow> validate_all model_validate raw_items)))"

text \<open>The exceptions named by \<open>except (httpx.RequestError, httpx.HTTPStatusError)\<close>.\<close>

fun caught :: "exc \<Rightarrow> bool" where
  "caught (RequestError _) = True"
| "caught (HTTPStatusError _) = True"
| "caught _ = False"

text \<open>
  What a fetch does that an observer can see: the requests it issues and the sleeps
  between them, \<open>0.5 * attempt\<close> seconds each.
\<close>

datatype event = Request int | Sleep rat

text \<open>
  The loop \<open>for attempt in range(1, 4)\<close>, over the attempt numbers still to run.
  \<open>client attempt\<close> is the reply to the request of that attempt. The statement after
  the loop is \<open>raise last_exc\<close>, a \<open>TypeError\<close> when \<open>last_exc\<close> is still \<open>None\<close>.
\<close>

fun fetch_year_loop ::
  "('raw \<Rightarrow> exc + OscarFilm) \<Rightarrow> (nat \<Rightarrow> 'raw reply) \<Rightarrow> int \<Rightarrow> nat list \<Rightarrow> exc option
     \<Rightarrow> event list \<times> (exc + OscarFilm list)" where
  "fetch_year_loop model_validate client y [] last_exc =
     ([], case last_exc of
            Some e \<Rightarrow> Inl e
          | None \<Rightarrow> Inl (TypeError ''exceptions must derive from BaseException''))"
| "fetch_year_loop model_validate client y (attempt # rest) last_exc =
     (case attempt_body model_validate (client attempt) of
        Inr fs \<Rightarrow> ([Request y], Inr fs)
      | Inl e \<Rightarrow>
          if caught e then
            (if attempt < 3 then
               (case fetch_year_loop model_validate client y rest (Some e) of
                  (evs, res) \<Rightarrow> (Request y # Sleep (1 / 2 * of_nat attempt) # evs, res))
             else ([Request y], Inl e))
          else ([Request y], Inl e))"

definition fetch_year ::
  "('raw \<Rightarrow> exc + OscarFilm) \<Rightarrow> (nat \<Rightarrow> 'raw reply) \<Rightarrow> int
     \<Rightarrow> event list \<times> (exc + OscarFilm list)" where
  "fetch_year model_validate client y = fetch_year_loop model_validate client y [1..<4] None"

section \<open>Direct collection: \<open>crawl_oscar_films\<close> of the API\<close>

definition DEFAULT_YEARS :: "int list" where
  "DEFAULT_YEARS = map int [2010..<2016]"

text \<open>\<open>years or DEFAULT_YEARS\<close>: \<open>None\<close> and the empty list are both falsy.\<close>

definition years_to_fetch :: "int list option \<Rightarrow> int list" where
  "years_to_fetch years =
     (case years of None \<Rightarrow> DEFAULT_YEARS | Some ys \<Rightarrow> if ys = [] then DEFAULT_YEARS else ys)"

text \<open>
  \<open>asyncio.gather(..., return_exceptions=True)\<close>: one outcome per awaitable, in the
  order of the awaitables, an exception being an outcome like any other. \<open>net i\<close> is
  the network as the \<open>i\<close>-th fetch of the call meets it.
\<close>

definition gather_all ::
  "('raw \<Rightarrow> exc + OscarFilm) \<Rightarrow> (nat \<Rightarrow> nat \<Rightarrow> 'raw reply) \<Rightarrow> int list
     \<Rightarrow> (exc + OscarFilm list) list" where
  "gather_all model_validate net ys =
     map (\<lambda>(i, y). snd (fetch_year model_validate (net i) y)) (enumerate 0 ys)"

text \<open>The loop over \<open>zip(years_to_fetch, results)\<close> that fills \<open>films\<close> and \<open>errors\<close>.\<close>

fun collect ::
  "(exc \<Rightarrow> string) \<Rightarrow> (int \<times> (exc + OscarFilm list)) list \<Rightarrow> OscarFilm list \<Rightarrow> string list
     \<Rightarrow> OscarFilm list \<times> string list" where
  "collect repr [] fs errors = (fs, errors)"
| "collect repr ((y, result) # rest) fs errors =
     (case result of
        Inl e \<Rightarrow> collect repr rest fs (errors @ [''year='' @ str_int y @ '': '' @ repr e])
      | Inr sub \<Rightarrow> collect repr rest (fs @ sub) errors)"

text \<open>\<open>repr\<close> is Python's, a parameter of the model.\<close>

definition crawl_oscar_films ::
  "(exc \<Rightarrow> string) \<Rightarrow> ('raw \<Rightarrow> exc + OscarFilm) \<Rightarrow> (nat \<Rightarrow> nat \<Rightarrow> 'raw reply)
     \<Rightarrow> int list option \<Rightarrow> exc + OscarFilm list" where
  "crawl_oscar_films repr model_validate net years =
     (let ys = years_to_fetch years;
          results = gather_all model_validate net ys
      in case collect repr (zip ys results) [] [] of
           (fs, errors) \<Rightarrow>
             if errors \<noteq> [] \<and> fs = []
             then Inl (RuntimeError (''AJAX crawl failed for all years: '' @ join ''; '' errors))
             else Inr fs)"

section \<open>Browser fetch: \<open>selenium_crawler.py\<close>\<close>

text \<open>
  One browser session, as far as the crawler looks at it. \<open>start\<close> is the outcome of
  \<open>_build_driver()\<close> and \<open>driver.get(BASE_URL)\<close>; \<open>year_links\<close> are the
  \<open>a.year-link\<close> anchors that are there within the wait (none: the wait times out);
  \<open>has_id s\<close> tells whether an element with id \<open>s\<close> is there within the wait;
  \<open>click s\<close> is the outcome of clicking it; \<open>film_rows s\<close> are the \<open>tr.film\<close> rows
  of the table within the wait after the click on \<open>s\<close> (none: the wait times out).
\<close>

record year_link =
  id_attr :: "string option"
  class_attr :: "string option"

record film_row =
  film_title :: string
  film_nominations :: string
  film_awards :: string
  flag_icons :: nat

record browser =
  start :: "exc option"
  year_links :: "year_link list"
  has_id :: "string \<Rightarrow> bool"
  click :: "string \<Rightarrow> exc option"
  film_rows :: "string \<Rightarrow> film_row list"

text \<open>
  The constructor call \<open>OscarFilm(title=..., ...)\<close> with the validator \<open>strip_title\<close>.
\<close>

definition make_film :: "string \<Rightarrow> int \<Rightarrow> int \<Rightarrow> int \<Rightarrow> bool \<Rightarrow> OscarFilm" where
  "make_film t y n a b =
     \<lparr>title = strip t, year = y, nominations = n, awards = a, best_picture = b\<rparr>"

text \<open>
  The loop over the rows of \<open>_scrape_current_table\<close>. \<open>py_int\<close> is Python's \<open>int\<close> on
  a string, \<open>None\<close> where it raises \<open>ValueError\<close>; it is a parameter of the model.
\<close>

fun scrape_rows :: "(string \<Rightarrow> int option) \<Rightarrow> int \<Rightarrow> film_row list \<Rightarrow> exc + OscarFilm list" where
  "scrape_rows py_int y [] = Inr []"
| "scrape_rows py_int y (row # rows) =
     (case py_int (film_nominations row) of
        None \<Rightarrow> Inl (ValueError (film_nominations row))
      | Some n \<Rightarrow>
          (case py_int (film_awards row) of
             None \<Rightarrow> Inl (ValueError (film_awards row))
           | Some a \<Rightarrow>
               (case scrape_rows py_int y rows of
                  Inl e \<Rightarrow> Inl e
                | Inr rest \<Rightarrow> Inr (make_film (film_title row) y n a (flag_icons row > 0) # rest))))"

text \<open>
  \<open>_scrape_current_table(driver, year)\<close>, on the rows the driver shows after the click
  on the element \<open>shown\<close>.
\<close>

definition scrape_current_table ::
  "(string \<Rightarrow> int option) \<Rightarrow> browser \<Rightarrow> string \<Rightarrow> int \<Rightarrow> exc + OscarFilm list" where
  "scrape_current_table py_int driver shown y =
     (if film_rows driver shown = [] then Inl TimeoutException
      else scrape_rows py_int y (film_rows driver shown))"

text \<open>
  The loop over the links of \<open>_discover_years_and_first_page\<close>, which carries
  \<open>years_found\<close> and \<open>active_year\<close>.
\<close>

fun scan_links ::
  "(string \<Rightarrow> int option) \<Rightarrow> year_link list \<Rightarrow> int list \<Rightarrow> int option \<Rightarrow> int list \<times> int option" where
  "scan_links py_int [] years_found active_year = (years_found, active_year)"
| "scan_links py_int (l # links) years_found active_year =
     (case id_attr l of
        None \<Rightarrow> scan_links py_int links years_found active_year
      | Some year_id \<Rightarrow>
          if year_id = [] then scan_links py_int links years_found active_year
          else
            (case py_int year_id of
               None \<Rightarrow> scan_links py_int links years_found active_year
             | Some year_int \<Rightarrow>
                 scan_links py_int links (years_found @ [year_int])
                   (if ''active'' \<in> set (split_ws (case class_attr l of None \<Rightarrow> [] | Some c \<Rightarrow> c))
                    then Some year_int else active_year)))"

text \<open>\<open>_discover_years_and_first_page()\<close>, in the session \<open>driver\<close>.\<close>

definition discover_years_and_first_page ::
  "(string \<Rightarrow> int option) \<Rightarrow> browser \<Rightarrow> exc + (int list \<times> int \<times> OscarFilm list)" where
  "discover_years_and_first_page py_int driver =
     (case start driver of
        Some e \<Rightarrow> Inl e
      | None \<Rightarrow>
          if year_links driver = []
          then Inl (RuntimeError ''Timeout waiting for .year-link anchors on Oscar page'')
          else
            (case scan_links py_int (year_links driver) [] None of
               (years_found, active) \<Rightarrow>
                 (case years_found of
                    [] \<Rightarrow> Inl (RuntimeError ''Nenhum ano encontrado via Selenium (.year-link).'')
                  | first # _ \<Rightarrow>
                      (let active_year = (case active of None \<Rightarrow> first | Some a \<Rightarrow> a) in
                       if \<not> has_id driver (str_int active_year)
                       then Inl (NoSuchElementException (str_int active_year))
                       else
                         (case click driver (str_int active_year) of
                            Some e \<Rightarrow> Inl e
                          | None \<Rightarrow>
                              (case scrape_current_table py_int driver (str_int active_year) active_year of
                                 Inl e \<Rightarrow> Inl e
                               | Inr first_films \<Rightarrow> Inr (years_found, active_year, first_films)))))))"

text \<open>\<open>_fetch_year_selenium(year)\<close>, in a session of its own.\<close>

definition fetch_year_selenium ::
  "(string \<Rightarrow> int option) \<Rightarrow> browser \<Rightarrow> int \<Rightarrow> exc + OscarFilm list" where
  "fetch_year_selenium py_int driver y =
     (case start driver of
        Some e \<Rightarrow> Inl e
      | None \<Rightarrow>
          if \<not> has_id driver (str_int y) then Inl TimeoutException
          else
            (case click driver (str_int y) of
               Some e \<Rightarrow> Inl e
             | None \<Rightarrow> scrape_current_table py_int driver (str_int y) y))"

text \<open>
  \<open>asyncio.gather(...)\<close> without \<open>return_exceptions\<close>: the first exception that is
  raised, in time, goes to the caller at once; with no exception the results come back
  in the order of the awaitables. \<open>finish i\<close> is the time at which the \<open>i\<close>-th
  awaitable completes.
\<close>

definition first_failure :: "(nat \<Rightarrow> nat) \<Rightarrow> (exc + 'a) list \<Rightarrow> exc option" where
  "first_failure finish outcomes =
     (case filter (\<lambda>i. isl (outcomes ! i)) [0..<length outcomes] of
        [] \<Rightarrow> None
      | i # is \<Rightarrow> Some (projl (outcomes ! arg_min_list finish (i # is))))"

definition gather :: "(nat \<Rightarrow> nat) \<Rightarrow> (exc + 'a) list \<Rightarrow> exc + 'a list" where
  "gather finish outcomes =
     (case first_failure finish outcomes of
        Some e \<Rightarrow> Inl e
      | None \<Rightarrow> Inr (map projr outcomes))"

text \<open>The calls the coordinator makes, in the order it makes them.\<close>

datatype call = Discover | FetchYear int

text \<open>
  The fan-out shared by both branches: one \<open>_fetch_year_selenium\<close> per year, each in
  the session \<open>sessions i\<close> of its own, gathered, then flattened in the order of the
  years.
\<close>

definition fetch_all_selenium ::
  "(string \<Rightarrow> int option) \<Rightarrow> (nat \<Rightarrow> browser) \<Rightarrow> (nat \<Rightarrow> nat) \<Rightarrow> int list \<Rightarrow> exc + OscarFilm list" where
  "fetch_all_selenium py_int sessions finish ys =
     (case gather finish (map (\<lambda>(i, y). fetch_year_selenium py_int (sessions i) y) (enumerate 0 ys)) of
        Inl e \<Rightarrow> Inl e
      | Inr results \<Rightarrow> Inr (concat results))"

text \<open>\<open>crawl_oscar_films_selenium(years)\<close>; \<open>discovery\<close> is the session of the discovery.\<close>

definition crawl_oscar_films_selenium ::
  "(string \<Rightarrow> int option) \<Rightarrow> browser \<Rightarrow> (nat \<Rightarrow> browser) \<Rightarrow> (nat \<Rightarrow> nat) \<Rightarrow> int list option
     \<Rightarrow> call list \<times> (exc + OscarFilm list)" where
  "crawl_oscar_films_selenium py_int discovery sessions finish years =
     (case years of
        Some ys \<Rightarrow> (map FetchYear ys, fetch_all_selenium py_int sessions finish ys)
      | None \<Rightarrow>
          (case discover_years_and_first_page py_int discovery of
             Inl e \<Rightarrow> ([Discover], Inl e)
           | Inr (years_found, active_year, first_films) \<Rightarrow>
               (let remaining_years = filter (\<lambda>y. y \<noteq> active_year) years_found in
                if remaining_years = [] then ([Discover], Inr first_films)
                else
                  (Discover # map FetchYear remaining_years,
                   case fetch_all_selenium py_int sessions finish remaining_years of
                     Inl e \<Rightarrow> Inl e
                   | Inr rest \<Rightarrow> Inr (first_films @ rest)))))"

section \<open>Job tracker: the API's \<open>jobs\<close>, \<open>trigger_oscar_crawl\<close> and \<open>_run_crawl_job\<close>\<close>

text \<open>
  Everything outside the program that one background run meets: Python's \<open>repr\<close> and
  \<open>int\<close>, \<open>pydantic\<close>'s validation, the network of the direct mode, the browser
  sessions of the browser mode with their completion times, the outcome of
  \<open>file_path.write_text\<close> and the directory \<open>DATA_DIR\<close>.
\<close>

record 'raw world =
  w_repr :: "exc \<Rightarrow> string"
  w_model_validate :: "'raw \<Rightarrow> exc + OscarFilm"
  w_py_int :: "string \<Rightarrow> int option"
  w_net :: "nat \<Rightarrow> nat \<Rightarrow> 'raw reply"
  w_discovery :: browser
  w_sessions :: "nat \<Rightarrow> browser"
  w_finish :: "nat \<Rightarrow> nat"
  w_write_text :: "exc option"
  w_data_dir :: string

record CrawlRequest =
  req_mode :: CrawlModeEnum
  req_years :: "int list option"

text \<open>
  A background task added by \<open>background_tasks.add_task\<close>: not started yet, or
  suspended at the \<open>await\<close> of the crawl, holding its local variable \<open>job\<close>.
\<close>

datatype task =
    Scheduled CrawlModeEnum "int list option"
  | Awaiting CrawlJobResult CrawlModeEnum "int list option"

record state =
  jobs :: "string \<rightharpoonup> CrawlJobResult"
  tasks :: "string \<rightharpoonup> task"

definition job_file_path :: "string \<Rightarrow> string \<Rightarrow> string" where
  "job_file_path dir jid = dir @ ''/oscar_'' @ jid @ ''.json''"

text \<open>
  \<open>trigger_oscar_crawl(body, background_tasks)\<close>; \<open>uuid\<close> is the value of
  \<open>uuid.uuid4().hex\<close> and \<open>now\<close> the clock. It returns the job and the new state.
\<close>

definition trigger_oscar_crawl ::
  "state \<Rightarrow> string \<Rightarrow> nat \<Rightarrow> CrawlRequest \<Rightarrow> CrawlJobResult \<times> state" where
  "trigger_oscar_crawl s uuid now body =
     (let job = \<lparr>job_id = uuid, status = pending, created_at = now, updated_at = now,
                 total_films = 0, data_file = None, error = None, films = None\<rparr>
      in (job, s\<lparr>jobs := (jobs s)(uuid \<mapsto> job),
                  tasks := (tasks s)(uuid \<mapsto> Scheduled (req_mode body) (req_years body))\<rparr>))"

text \<open>The mode dispatch inside \<open>_run_crawl_job\<close>.\<close>

definition run_crawl :: "'raw world \<Rightarrow> CrawlModeEnum \<Rightarrow> int list option \<Rightarrow> exc + OscarFilm list" where
  "run_crawl w m yrs =
     (if m = selenium
      then snd (crawl_oscar_films_selenium (w_py_int w) (w_discovery w) (w_sessions w) (w_finish w) yrs)
      else crawl_oscar_films (w_repr w) (w_model_validate w) (w_net w) yrs)"

text \<open>
  \<open>_run_crawl_job\<close> up to its \<open>await\<close>: the lookup \<open>jobs[job_id]\<close>, a \<open>KeyError\<close>
  when the id is unknown, and the snapshot with status \<open>running\<close>.
\<close>

definition run_crawl_job_begin ::
  "(string \<rightharpoonup> CrawlJobResult) \<Rightarrow> string \<Rightarrow> nat
     \<Rightarrow> exc + (CrawlJobResult \<times> (string \<rightharpoonup> CrawlJobResult))" where
  "run_crawl_job_begin js jid now =
     (case js jid of
        None \<Rightarrow> Inl (KeyError jid)
      | Some job \<Rightarrow> Inr (job, js(jid \<mapsto> job\<lparr>status := running, updated_at := now\<rparr>)))"

text \<open>
  The \<open>try\<close> block of \<open>_run_crawl_job\<close>: the crawl, then the file; and the function
  from the \<open>await\<close> on, with its \<open>except Exception\<close> handler. Both snapshots are
  copies of the local \<open>job\<close>.
\<close>

definition crawl_and_store ::
  "'raw world \<Rightarrow> string \<Rightarrow> CrawlModeEnum \<Rightarrow> int list option \<Rightarrow> exc + (OscarFilm list \<times> string)" where
  "crawl_and_store w jid m yrs =
     (case run_crawl w m yrs of
        Inl e \<Rightarrow> Inl e
      | Inr fs \<Rightarrow>
          (case w_write_text w of
             Some e \<Rightarrow> Inl e
           | None \<Rightarrow> Inr (fs, job_file_path (w_data_dir w) jid)))"

definition run_crawl_job_end ::
  "'raw world \<Rightarrow> (string \<rightharpoonup> CrawlJobResult) \<Rightarrow> CrawlJobResult \<Rightarrow> string \<Rightarrow> CrawlModeEnum
     \<Rightarrow> int list option \<Rightarrow> nat \<Rightarrow> (string \<rightharpoonup> CrawlJobResult)" where
  "run_crawl_job_end w js job jid m yrs now =
     (case crawl_and_store w jid m yrs of
        Inr (fs, file_path) \<Rightarrow>
          js(jid \<mapsto> job\<lparr>status := completed, updated_at := now,
                          total_films := int (length fs), data_file := Some file_path,
                          films := Some fs\<rparr>)
      | Inl e \<Rightarrow>
          js(jid \<mapsto> job\<lparr>status := failed, updated_at := now, error := Some (w_repr w e)\<rparr>))"

text \<open>
  \<open>_run_crawl_job(job_id, mode, years)\<close> run without interruption; \<open>t1\<close> and \<open>t2\<close>
  are the clock at its two updates. \<open>Inl\<close> is an exception that leaves the function.
\<close>

definition run_crawl_job ::
  "'raw world \<Rightarrow> (string \<rightharpoonup> CrawlJobResult) \<Rightarrow> string \<Rightarrow> CrawlModeEnum \<Rightarrow> int list option
     \<Rightarrow> nat \<Rightarrow> nat \<Rightarrow> exc + (string \<rightharpoonup> CrawlJobResult)" where
  "run_crawl_job w js jid m yrs t1 t2 =
     (case run_crawl_job_begin js jid t1 of
        Inl e \<Rightarrow> Inl e
      | Inr (job, js') \<Rightarrow> Inr (run_crawl_job_end w js' job jid m yrs t2))"

text \<open>
  The life of the process: submissions, and the background tasks taking their two steps
  in any interleaving. A submission draws an id that no job has yet, as \<open>uuid4\<close> is
  taken to do. A step that is not possible in a state gives \<open>None\<close>.
\<close>

datatype 'raw action =
    Submit string nat CrawlRequest
  | Begin string nat
  | End string nat "'raw world"

fun step :: "state \<Rightarrow> 'raw action \<Rightarrow> state option" where
  "step s (Submit uuid now body) =
     (case jobs s uuid of
        Some _ \<Rightarrow> None
      | None \<Rightarrow> Some (snd (trigger_oscar_crawl s uuid now body)))"
| "step s (Begin jid now) =
     (case tasks s jid of
        Some (Scheduled m yrs) \<Rightarrow>
          (case run_crawl_job_begin (jobs s) jid now of
             Inl e \<Rightarrow> Some (s\<lparr>tasks := (tasks s)(jid := None)\<rparr>)
           | Inr (job, js) \<Rightarrow> Some (s\<lparr>jobs := js, tasks := (tasks s)(jid \<mapsto> Awaiting job m yrs)\<rparr>))
      | _ \<Rightarrow> None)"
| "step s (End jid now w) =
     (case tasks s jid of
        Some (Awaiting job m yrs) \<Rightarrow>
          Some (s\<lparr>jobs := run_crawl_job_end w (jobs s) job jid m yrs now,
                  tasks := (tasks s)(jid := None)\<rparr>)
      | _ \<Rightarrow> None)"

fun run :: "state \<Rightarrow> 'raw action list \<Rightarrow> state option" where
  "run s [] = Some s"
| "run s (a # as) = (case step s a of None \<Rightarrow> None | Some s' \<Rightarrow> run s' as)"

definition init :: state where
  "init = \<lparr>jobs = Map.empty, tasks = Map.empty\<rparr>"

text \<open>
  The consistency of a job snapshot: \<open>films\<close> is there exactly in \<open>completed\<close>,
  \<open>error\<close> exactly in \<open>failed\<close>, \<open>total_films\<close> counts the films of a completed job
  and is 0 while the job is pending or running.
\<close>

definition consistent :: "CrawlJobResult \<Rightarrow> bool" where
  "consistent j =
     ((films j \<noteq> None) = (status j = completed) \<and>
      (error j \<noteq> None) = (status j = failed) \<and>
      (status j = completed \<longrightarrow> films j \<noteq> None \<and> total_films j = int (length (the (films j)))) \<and>
      (status j = pending \<or> status j = running \<longrightarrow> total_films j = 0))"

section \<open>Scenarios\<close>

text \<open>
  Concrete environments on which the model is run: a film as the page shows it, a
  validation that accepts the raw item \<open>True\<close> and rejects \<open>False\<close>, stand-ins for
  \<open>repr\<close> and \<open>int\<close>, networks, browser sessions and whole worlds.
\<close>

definition film_of_page :: "int \<Rightarrow> OscarFilm" where
  "film_of_page y =
     \<lparr>title = ''Spotlight'', year = y, nominations = 6, awards = 2, best_picture = True\<rparr>"

definition validate_flag :: "bool \<Rightarrow> exc + OscarFilm" where
  "validate_flag ok = (if ok then Inr (film_of_page 2010) else Inl (ValidationError ''nominations''))"

fun repr_class :: "exc \<Rightarrow> string" where
  "repr_class (RequestError m) = ''ReadTimeout('' @ m @ '')''"
| "repr_class (HTTPStatusError code) = ''HTTPStatusError('' @ str_int (int code) @ '')''"
| "repr_class (RuntimeError m) = ''RuntimeError('' @ m @ '')''"
| "repr_class _ = ''Exception()''"

definition parse_decimal :: "string \<Rightarrow> int option" where
  "parse_decimal s =
     (if s \<noteq> [] \<and> list_all (\<lambda>c. c \<in> set ''0123456789'') s
      then Some (int (foldl (\<lambda>n c. 10 * n + (of_char c - 48)) 0 s))
      else None)"

definition net_down :: "nat \<Rightarrow> nat \<Rightarrow> bool reply" where
  "net_down i attempt = Raised (RequestError ''timed out'')"

definition net_up :: "nat \<Rightarrow> nat \<Rightarrow> bool reply" where
  "net_up i attempt = Response 200 (Decoded [True])"

definition net_empty_then_down :: "nat \<Rightarrow> nat \<Rightarrow> bool reply" where
  "net_empty_then_down i attempt =
     (if i = 0 then Response 200 (Decoded []) else Raised (RequestError ''timed out''))"

definition client_404_then_ok :: "nat \<Rightarrow> bool reply" where
  "client_404_then_ok attempt =
     (if attempt = 1 then Response 404 (Decoded []) else Response 200 (Decoded [True]))"

definition client_bad_item :: "nat \<Rightarrow> bool reply" where
  "client_bad_item attempt = Response 200 (Decoded [True, False])"

definition page_ok :: browser where
  "page_ok =
     \<lparr>start = None,
      year_links = [\<lparr>id_attr = Some ''2015'', class_attr = Some ''year-link active''\<rparr>,
                    \<lparr>id_attr = Some ''2014'', class_attr = Some ''year-link''\<rparr>],
      has_id = (\<lambda>s. True),
      click = (\<lambda>s. None),
      film_rows = (\<lambda>s. [\<lparr>film_title = '' Spotlight '', film_nominations = ''6'',
                           film_awards = ''2'', flag_icons = 1\<rparr>])\<rparr>"

definition page_crashed :: browser where
  "page_crashed = page_ok\<lparr>start := Some (WebDriverException ''chrome not reachable'')\<rparr>"

definition sessions_ok :: "nat \<Rightarrow> browser" where
  "sessions_ok i = page_ok"

definition sessions_second_crashes :: "nat \<Rightarrow> browser" where
  "sessions_second_crashes i = (if i = 1 then page_crashed else page_ok)"

definition finish_in_order :: "nat \<Rightarrow> nat" where
  "finish_in_order i = i"

definition world_up :: "bool world" where
  "world_up =
     \<lparr>w_repr = repr_class, w_model_validate = validate_flag, w_py_int = parse_decimal,
      w_net = net_up, w_discovery = page_ok, w_sessions = sessions_ok,
      w_finish = finish_in_order, w_write_text = None, w_data_dir = ''/data''\<rparr>"

definition world_down :: "bool world" where
  "world_down = world_up\<lparr>w_net := net_down\<rparr>"

definition request_2010 :: CrawlRequest where
  "request_2010 = \<lparr>req_mode = ajax, req_years = Some [2010]\<rparr>"

section \<open>Invariant of the job tracker\<close>

text \<open>
  A snapshot as \<open>trigger_oscar_crawl\<close> creates it, and what holds in every state of the
  process: each stored snapshot is consistent, a task that has not started has its
  snapshot still as created, and the local \<open>job\<close> of a suspended task is as created.
\<close>

definition fresh :: "CrawlJobResult \<Rightarrow> bool" where
  "fresh j = (status j = pending \<and> total_films j = 0 \<and> error j = None \<and> films j = None)"

definition invariant :: "state \<Rightarrow> bool" where
  "invariant s =
     ((\<forall>jid j. jobs s jid = Some j \<longrightarrow> consistent j) \<and>
      (\<forall>jid m yrs. tasks s jid = Some (Scheduled m yrs) \<longrightarrow> (\<exists>j. jobs s jid = Some j \<and> fresh j)) \<and>
      (\<forall>jid job m yrs. tasks s jid = Some (Awaiting job m yrs) \<longrightarrow> fresh job))"

section \<open>Direct fetch: retries\<close>

lemma range_1_4: "[1..<4] = [1, 2, 3::nat]"
  by (simp add: upt_rec)

lemma fetch_year_unfold:
  "fetch_year model_validate client y = fetch_year_loop model_validate client y [1, 2, 3] None"
  unfolding fetch_year_def range_1_4 ..

lemma attempt_down: "attempt_body validate_flag (net_down i k) = Inl (RequestError ''timed out'')"
  by (simp add: attempt_body_def net_down_def)

lemma fetch_down:
  "fetch_year validate_flag (net_down i) y =
     ([Request y, Sleep (1 / 2), Request y, Sleep 1, Request y], Inl (RequestError ''timed out''))"
  by (simp add: fetch_year_unfold attempt_down)

text \<open>
  C4. A fetch issues one, two or three requests and nothing more; it sleeps only after
  the first and after the second request, for 0.5 and 1.0 seconds; and when the first two
  attempts fail with a caught exception, whatever fails the third attempt leaves the
  function right after the third request, with no further sleep.
\<close>

theorem fetch_year_attempts:
  "fst (fetch_year model_validate client y) \<in>
     {[Request y],
      [Request y, Sleep (1 / 2), Request y],
      [Request y, Sleep (1 / 2), Request y, Sleep 1, Request y]} \<and>
   length (filter (\<lambda>ev. ev = Request y) (fst (fetch_year model_validate client y))) \<le> 3 \<and>
   (attempt_body model_validate (client 1) = Inl e1 \<and> caught e1 \<and>
    attempt_body model_validate (client 2) = Inl e2 \<and> caught e2 \<and>
    attempt_body model_validate (client 3) = Inl e3
    \<longrightarrow> fetch_year model_validate client y =
          ([Request y, Sleep (1 / 2), Request y, Sleep 1, Request y], Inl e3))"
  unfolding fetch_year_unfold
  by (auto split: sum.splits prod.splits)

theorem fetch_year_attempts_witness:
  "attempt_body validate_flag (net_down 0 1) = Inl (RequestError ''timed out'') \<and>
   caught (RequestError ''timed out'') \<and>
   attempt_body validate_flag (net_down 0 2) = Inl (RequestError ''timed out'') \<and>
   attempt_body validate_flag (net_down 0 3) = Inl (RequestError ''timed out'') \<and>
   fetch_year validate_flag (net_down 0) 2010 =
     ([Request 2010, Sleep (1 / 2), Request 2010, Sleep 1, Request 2010],
      Inl (RequestError ''timed out''))"
  using fetch_year_attempts [of validate_flag "net_down 0" 2010 "RequestError ''timed out''"
      "RequestError ''timed out''" "RequestError ''timed out''"]
  by (simp add: attempt_down)

lemma validate_all_Inl:
  "validate_all v items = Inl e \<Longrightarrow> \<exists>item \<in> set items. v item = Inl e"
  by (induction items) (auto split: sum.splits)

lemma validate_all_fails:
  "item \<in> set items \<Longrightarrow> isl (v item) \<Longrightarrow> isl (validate_all v items)"
  by (induction items) (auto split: sum.splits)

text \<open>
  C8. When the reply of an attempt has a success status and its body is not JSON, or
  holds an item that the validation rejects, the exception leaves the loop on that very
  attempt: one request, no sleep, no later attempt. The exception is not one of those the
  \<open>except\<close> clause names, provided the validation raises none of them.
\<close>

theorem parse_failure_not_retried:
  assumes "client attempt = Response code body" and "is_success code"
    and "\<And>item e. model_validate item = Inl e \<Longrightarrow> \<not> caught e"
    and "(\<exists>m. body = Malformed m) \<or> (\<exists>items. body = Decoded items \<and> (\<exists>item \<in> set items. isl (model_validate item)))"
  shows "\<exists>e. \<not> caught e \<and> attempt_body model_validate (client attempt) = Inl e \<and>
           fetch_year_loop model_validate client y (attempt # rest) last_exc = ([Request y], Inl e)"
proof -
  from assms(4) obtain e where e: "attempt_body model_validate (client attempt) = Inl e" "\<not> caught e"
  proof
    assume "\<exists>m. body = Malformed m"
    then obtain m where "body = Malformed m" ..
    with assms(1,2) have "attempt_body model_validate (client attempt) = Inl (JSONDecodeError m)"
      by (simp add: attempt_body_def raise_for_status_def)
    then show ?thesis using that by simp
  next
    assume "\<exists>items. body = Decoded items \<and> (\<exists>item \<in> set items. isl (model_validate item))"
    then obtain items where b: "body = Decoded items" and bad: "\<exists>item \<in> set items. isl (model_validate item)"
      by blast
    from bad validate_all_fails obtain e where v: "validate_all model_validate items = Inl e"
      by (cases "validate_all model_validate items") fastforce+
    from validate_all_Inl [OF v] assms(3) have "\<not> caught e" by blast
    moreover from assms(1,2) b v have "attempt_body model_validate (client attempt) = Inl e"
      by (simp add: attempt_body_def raise_for_status_def)
    ultimately show ?thesis using that by blast
  qed
  then show ?thesis by auto
qed

theorem parse_failure_not_retried_witness:
  "client_bad_item 1 = Response 200 (Decoded [True, False]) \<and> is_success 200 \<and>
   validate_flag False = Inl (ValidationError ''nominations'') \<and>
   \<not> caught (ValidationError ''nominations'') \<and>
   fetch_year validate_flag client_bad_item 2010 = ([Request 2010], Inl (ValidationError ''nominations''))"
proof -
  have h1: "client_bad_item 1 = Response 200 (Decoded [True, False])"
    by (simp add: client_bad_item_def)
  have h2: "is_success 200" by (simp add: is_success_def)
  have h3: "\<not> caught e" if "validate_flag item = Inl e" for item e
    using that by (auto simp add: validate_flag_def split: if_splits)
  have h4: "(\<exists>m. Decoded [True, False] = Malformed m) \<or>
            (\<exists>items. Decoded [True, False] = Decoded items \<and> (\<exists>item \<in> set items. isl (validate_flag item)))"
    by (auto simp add: validate_flag_def)
  have "\<exists>e. \<not> caught e \<and> attempt_body validate_flag (client_bad_item 1) = Inl e \<and>
          fetch_year_loop validate_flag client_bad_item 2010 [1, 2, 3] None = ([Request 2010], Inl e)"
    by (rule parse_failure_not_retried [of client_bad_item 1 200 "Decoded [True, False]" validate_flag
          2010 "[2, 3]" None, OF h1 h2 _ h4]) (erule h3)
  then obtain e where "attempt_body validate_flag (client_bad_item 1) = Inl e"
    and "fetch_year_loop validate_flag client_bad_item 2010 [1, 2, 3] None = ([Request 2010], Inl e)"
    by blast
  moreover have "attempt_body validate_flag (client_bad_item 1) = Inl (ValidationError ''nominations'')"
    by (simp add: attempt_body_def client_bad_item_def raise_for_status_def is_success_def
        validate_flag_def film_of_page_def)
  ultimately have res: "fetch_year validate_flag client_bad_item 2010 =
      ([Request 2010], Inl (ValidationError ''nominations''))"
    by (simp add: fetch_year_unfold)
  have h5: "validate_flag False = Inl (ValidationError ''nominations'')"
    by (simp add: validate_flag_def)
  from h1 h2 h5 res show ?thesis by simp
qed

text \<open>
  C10. A reply whose status is not a success status, a 4xx like any other, is handled as
  a failed attempt to be retried: before the third attempt, the loop sleeps
  \<open>0.5 * attempt\<close> and goes on with the next attempt, remembering the
  \<open>HTTPStatusError\<close>.
\<close>

theorem non_2xx_status_is_retried:
  assumes "client attempt = Response code body" and "\<not> is_success code" and "attempt < 3"
  shows "fetch_year_loop model_validate client y (attempt # rest) last_exc =
           (Request y # Sleep (1 / 2 * of_nat attempt)
              # fst (fetch_year_loop model_validate client y rest (Some (HTTPStatusError code))),
            snd (fetch_year_loop model_validate client y rest (Some (HTTPStatusError code))))"
  using assms by (simp add: attempt_body_def raise_for_status_def split: prod.splits)

theorem non_2xx_status_is_retried_witness:
  "client_404_then_ok 1 = Response 404 (Decoded []) \<and> \<not> is_success 404 \<and> (1::nat) < 3 \<and>
   fetch_year validate_flag client_404_then_ok 2010 =
     ([Request 2010, Sleep (1 / 2), Request 2010], Inr [film_of_page 2010])"
proof -
  have h1: "client_404_then_ok 1 = Response 404 (Decoded [])"
    by (simp add: client_404_then_ok_def)
  have h2: "\<not> is_success 404" by (simp add: is_success_def)
  have h3: "(1::nat) < 3" by simp
  have next_attempt: "fetch_year_loop validate_flag client_404_then_ok 2010 [2, 3] (Some (HTTPStatusError 404))
          = ([Request 2010], Inr [film_of_page 2010])"
    by (simp add: attempt_body_def client_404_then_ok_def raise_for_status_def is_success_def
        validate_flag_def)
  note step = non_2xx_status_is_retried [of client_404_then_ok 1 404 "Decoded []" validate_flag 2010
      "[2, 3]" None, OF h1 h2 h3]
  have "fetch_year validate_flag client_404_then_ok 2010 =
     ([Request 2010, Sleep (1 / 2), Request 2010], Inr [film_of_page 2010])"
    unfolding fetch_year_unfold step next_attempt by simp
  with h1 h2 show ?thesis by simp
qed

section \<open>Direct collection: total and partial failure\<close>

lemma collect_eq:
  "collect repr xs fs errors =
     (fs @ concat (map (\<lambda>(y, r). case r of Inl e \<Rightarrow> [] | Inr sub \<Rightarrow> sub) xs),
      errors @ concat (map (\<lambda>(y, r). case r of Inl e \<Rightarrow> [''year='' @ str_int y @ '': '' @ repr e] | Inr sub \<Rightarrow> []) xs))"
  by (induction xs arbitrary: fs errors) (auto split: sum.splits)

lemma sublist_join: "x \<in> set xs \<Longrightarrow> sublist x (join sep xs)"
proof (induction sep xs rule: join.induct)
  case (3 sep a b bs)
  show ?case
  proof (cases "x = a")
    case True
    then show ?thesis by (simp add: sublist_append_rightI)
  next
    case False
    with 3 have "sublist x (join sep (b # bs))" by simp
    then obtain ps ss where "join sep (b # bs) = ps @ x @ ss"
      by (auto simp: sublist_def)
    then have "join sep (a # b # bs) = (a @ sep @ ps) @ x @ ss" by simp
    then show ?thesis unfolding sublist_def by blast
  qed
qed simp_all

lemma years_to_fetch_nonempty: "years_to_fetch years \<noteq> []"
  by (simp add: years_to_fetch_def DEFAULT_YEARS_def upt_rec split: option.splits)

lemma length_gather_all: "length (gather_all v net ys) = length ys"
  by (simp add: gather_all_def)

lemma nth_gather_all:
  "i < length ys \<Longrightarrow> gather_all v net ys ! i = snd (fetch_year v (net i) (ys ! i))"
  by (simp add: gather_all_def nth_enumerate_eq)

lemma all_failed_films:
  "length ys = length rs \<Longrightarrow> \<forall>r \<in> set rs. isl r \<Longrightarrow>
   concat (map (\<lambda>(y, r). case r of Inl e \<Rightarrow> [] | Inr sub \<Rightarrow> sub) (zip ys rs)) = []"
  by (induction ys rs rule: list_induct2) (auto split: sum.splits)

lemma all_failed_errors:
  "length ys = length rs \<Longrightarrow> \<forall>r \<in> set rs. isl r \<Longrightarrow>
   concat (map (\<lambda>(y, r). case r of Inl e \<Rightarrow> [f y e] | Inr sub \<Rightarrow> []) (zip ys rs))
     = map (\<lambda>(y, r). f y (projl r)) (zip ys rs)"
  by (induction ys rs rule: list_induct2) (auto split: sum.splits)

text \<open>
  C2. When every fetch of a direct collection fails, the call raises one
  \<open>RuntimeError\<close> whose message holds, for each partition, the text
  \<open>year=<key>: <repr of its exception>\<close>.
\<close>

theorem all_partitions_failed:
  assumes "\<forall>i < length (years_to_fetch years).
             isl (snd (fetch_year model_validate (net i) (years_to_fetch years ! i)))"
  shows "\<exists>msg. crawl_oscar_films repr model_validate net years = Inl (RuntimeError msg) \<and>
           (\<forall>i < length (years_to_fetch years).
              sublist (''year='' @ str_int (years_to_fetch years ! i) @ '': '' @
                       repr (projl (snd (fetch_year model_validate (net i) (years_to_fetch years ! i)))))
                      msg)"
proof -
  let ?ys = "years_to_fetch years"
  let ?rs = "gather_all model_validate net ?ys"
  let ?line = "\<lambda>y e. ''year='' @ str_int y @ '': '' @ repr e"
  let ?errors = "map (\<lambda>(y, r). ?line y (projl r)) (zip ?ys ?rs)"
  have len: "length ?ys = length ?rs" by (simp add: length_gather_all)
  have failed: "\<forall>r \<in> set ?rs. isl r"
    using assms by (simp add: all_set_conv_all_nth length_gather_all nth_gather_all)
  have col: "collect repr (zip ?ys ?rs) [] [] = ([], ?errors)"
    by (simp add: collect_eq all_failed_films [OF len failed] all_failed_errors [OF len failed])
  have ne: "?errors \<noteq> []"
    using years_to_fetch_nonempty [of years] len by (cases ?ys; cases ?rs) auto
  have res: "crawl_oscar_films repr model_validate net years =
          Inl (RuntimeError (''AJAX crawl failed for all years: '' @ join ''; '' ?errors))"
    using ne by (simp add: crawl_oscar_films_def Let_def col)
  have "sublist (?line (?ys ! i) (projl (snd (fetch_year model_validate (net i) (?ys ! i)))))
          (''AJAX crawl failed for all years: '' @ join ''; '' ?errors)" if i: "i < length ?ys" for i
  proof -
    have "?errors ! i = ?line (?ys ! i) (projl (snd (fetch_year model_validate (net i) (?ys ! i))))"
      using i len by (simp add: nth_gather_all)
    moreover have "?errors ! i \<in> set ?errors"
      using i len by (intro nth_mem) simp
    ultimately have "sublist (?line (?ys ! i) (projl (snd (fetch_year model_validate (net i) (?ys ! i)))))
                       (join ''; '' ?errors)"
      using sublist_join by metis
    then obtain ps ss where "join ''; '' ?errors = ps @ ?line (?ys ! i) (projl (snd (fetch_year model_validate (net i) (?ys ! i)))) @ ss"
      unfolding sublist_def by blast
    then have "''AJAX crawl failed for all years: '' @ join ''; '' ?errors
                 = (''AJAX crawl failed for all years: '' @ ps) @ ?line (?ys ! i) (projl (snd (fetch_year model_validate (net i) (?ys ! i)))) @ ss"
      by simp
    then show ?thesis unfolding sublist_def by blast
  qed
  with res show ?thesis by blast
qed

lemma years_2010_2011: "years_to_fetch (Some [2010, 2011]) = [2010, 2011]"
  by (simp add: years_to_fetch_def)

lemma str_2010: "str_int 2010 = ''2010''"
  by (simp add: str_int_def digits.simps)

lemma str_2011: "str_int 2011 = ''2011''"
  by (simp add: str_int_def digits.simps)

theorem all_partitions_failed_witness:
  "years_to_fetch (Some [2010, 2011]) = [2010, 2011] \<and>
   isl (snd (fetch_year validate_flag (net_down 0) 2010)) \<and>
   isl (snd (fetch_year validate_flag (net_down 1) 2011)) \<and>
   (\<exists>msg. crawl_oscar_films repr_class validate_flag net_down (Some [2010, 2011]) = Inl (RuntimeError msg) \<and>
      sublist ''year=2010: ReadTimeout(timed out)'' msg \<and>
      sublist ''year=2011: ReadTimeout(timed out)'' msg)"
proof -
  have h: "\<forall>i < length (years_to_fetch (Some [2010, 2011])).
      isl (snd (fetch_year validate_flag (net_down i) (years_to_fetch (Some [2010, 2011]) ! i)))"
    by (simp add: fetch_down)
  from all_partitions_failed [of "Some [2010, 2011]" validate_flag net_down repr_class, OF h]
  obtain msg where res: "crawl_oscar_films repr_class validate_flag net_down (Some [2010, 2011]) = Inl (RuntimeError msg)"
    and all: "\<forall>i < length (years_to_fetch (Some [2010, 2011])).
              sublist (''year='' @ str_int (years_to_fetch (Some [2010, 2011]) ! i) @ '': '' @
                       repr_class (projl (snd (fetch_year validate_flag (net_down i) (years_to_fetch (Some [2010, 2011]) ! i)))))
                      msg"
    by blast
  from all [rule_format, of 0] have "sublist ''year=2010: ReadTimeout(timed out)'' msg"
    by (simp add: years_2010_2011 fetch_down str_2010)
  moreover from all [rule_format, of 1] have "sublist ''year=2011: ReadTimeout(timed out)'' msg"
    by (simp add: years_2010_2011 fetch_down str_2011)
  ultimately show ?thesis using res by (auto simp add: years_2010_2011 fetch_down)
qed

lemma films_of_zip:
  "length ys = length rs \<Longrightarrow>
   concat (map (\<lambda>(y, r). case r of Inl e \<Rightarrow> [] | Inr sub \<Rightarrow> sub) (zip ys rs))
     = concat (map (\<lambda>r. case r of Inl e \<Rightarrow> [] | Inr sub \<Rightarrow> sub) rs)"
  by (induction ys rs rule: list_induct2) simp_all

text \<open>
  Whenever the successful fetches bring at least one film, the collection returns the
  films of the successful partitions in the order of the years, whatever else failed.
\<close>

lemma crawl_returns_collected_films:
  assumes "concat (map (\<lambda>r. case r of Inl e \<Rightarrow> [] | Inr sub \<Rightarrow> sub)
             (gather_all model_validate net (years_to_fetch years))) \<noteq> []"
  shows "crawl_oscar_films repr model_validate net years =
           Inr (concat (map (\<lambda>r. case r of Inl e \<Rightarrow> [] | Inr sub \<Rightarrow> sub)
                  (gather_all model_validate net (years_to_fetch years))))"
proof -
  define ys where "ys = years_to_fetch years"
  define rs where "rs = gather_all model_validate net ys"
  define fs where "fs = concat (map (\<lambda>r. case r of Inl e \<Rightarrow> [] | Inr sub \<Rightarrow> sub) rs)"
  have len: "length ys = length rs" by (simp add: rs_def length_gather_all)
  have ne: "fs \<noteq> []" using assms unfolding fs_def rs_def ys_def .
  have "fst (collect repr (zip ys rs) [] []) = fs"
    unfolding fs_def by (simp only: collect_eq fst_conv append_Nil films_of_zip [OF len])
  then obtain errors where "collect repr (zip ys rs) [] [] = (fs, errors)"
    by (cases "collect repr (zip ys rs) [] []") simp
  with ne have "crawl_oscar_films repr model_validate net years = Inr fs"
    by (simp add: crawl_oscar_films_def Let_def ys_def [symmetric] rs_def [symmetric])
  then show ?thesis unfolding fs_def rs_def ys_def .
qed

text \<open>
  C1. The collection over 2010 and 2011, where the fetch of 2010 succeeds with no items
  and the fetch of 2011 fails three times: one partition has succeeded, and yet
  \<open>crawl_oscar_films\<close> raises the error of the case in which all years failed.
\<close>

theorem empty_success_counts_as_total_failure:
  "gather_all validate_flag net_empty_then_down (years_to_fetch (Some [2010, 2011])) =
     [Inr [], Inl (RequestError ''timed out'')] \<and>
   crawl_oscar_films repr_class validate_flag net_empty_then_down (Some [2010, 2011]) =
     Inl (RuntimeError ''AJAX crawl failed for all years: year=2011: ReadTimeout(timed out)'')"
proof -
  have ok: "fetch_year validate_flag (net_empty_then_down 0) 2010 = ([Request 2010], Inr [])"
    by (simp add: fetch_year_unfold attempt_body_def net_empty_then_down_def raise_for_status_def
        is_success_def)
  have down: "snd (fetch_year validate_flag (net_empty_then_down 1) 2011) = Inl (RequestError ''timed out'')"
    by (simp add: fetch_year_unfold attempt_body_def net_empty_then_down_def)
  have g: "gather_all validate_flag net_empty_then_down [2010, 2011] =
             [Inr [], Inl (RequestError ''timed out'')]"
    using ok down by (simp add: gather_all_def enumerate_eq_zip upt_rec)
  then show ?thesis
    by (simp add: crawl_oscar_films_def years_2010_2011 str_2011)
qed

lemma default_gather:
  "gather_all model_validate net [2010, 2011, 2012, 2013, 2014, 2015] =
     [snd (fetch_year model_validate (net 0) 2010), snd (fetch_year model_validate (net 1) 2011),
      snd (fetch_year model_validate (net 2) 2012), snd (fetch_year model_validate (net 3) 2013),
      snd (fetch_year model_validate (net 4) 2014), snd (fetch_year model_validate (net 5) 2015)]"
  by (simp add: gather_all_def enumerate_eq_zip upt_rec eval_nat_numeral)

lemma years_empty: "years_to_fetch (Some []) = [2010, 2011, 2012, 2013, 2014, 2015]"
  by (simp add: years_to_fetch_def DEFAULT_YEARS_def upt_rec)

lemma fetch_up: "snd (fetch_year validate_flag (net_up i) y) = Inr [film_of_page 2010]"
  by (simp add: fetch_year_unfold attempt_body_def net_up_def raise_for_status_def is_success_def
      validate_flag_def)

text \<open>
  C9. An explicitly empty list of years is falsy. In the direct mode the years to fetch
  are then the six default years, and the outcome of \<open>crawl_oscar_films\<close> is the one
  computed from the six fetches of 2010 to 2015, in that order, exactly as when no list
  is given: on a network where every fetch brings one film it returns six
  films, and on a network that is down it raises the error that names the six years. The
  browser collection with an empty list dispatches no fetch and returns the empty list.
\<close>

theorem empty_years_default_or_nothing:
  "years_to_fetch (Some []) = [2010, 2011, 2012, 2013, 2014, 2015] \<and>
   gather_all model_validate net (years_to_fetch (Some [])) =
     map (\<lambda>i. snd (fetch_year model_validate (net i) (2010 + int i))) [0..<6] \<and>
   crawl_oscar_films repr model_validate net (Some []) = crawl_oscar_films repr model_validate net None \<and>
   crawl_oscar_films repr model_validate net (Some []) =
     (case collect repr
             [(2010, snd (fetch_year model_validate (net 0) 2010)),
              (2011, snd (fetch_year model_validate (net 1) 2011)),
              (2012, snd (fetch_year model_validate (net 2) 2012)),
              (2013, snd (fetch_year model_validate (net 3) 2013)),
              (2014, snd (fetch_year model_validate (net 4) 2014)),
              (2015, snd (fetch_year model_validate (net 5) 2015))] [] [] of
        (fs, errors) \<Rightarrow>
          if errors \<noteq> [] \<and> fs = []
          then Inl (RuntimeError (''AJAX crawl failed for all years: '' @ join ''; '' errors))
          else Inr fs) \<and>
   crawl_oscar_films repr_class validate_flag net_up (Some []) =
     Inr [film_of_page 2010, film_of_page 2010, film_of_page 2010,
          film_of_page 2010, film_of_page 2010, film_of_page 2010] \<and>
   crawl_oscar_films repr_class validate_flag net_down (Some []) =
     Inl (RuntimeError
       (''AJAX crawl failed for all years: year=2010: ReadTimeout(timed out); '' @
        ''year=2011: ReadTimeout(timed out); year=2012: ReadTimeout(timed out); '' @
        ''year=2013: ReadTimeout(timed out); year=2014: ReadTimeout(timed out); '' @
        ''year=2015: ReadTimeout(timed out)'')) \<and>
   crawl_oscar_films_selenium py_int discovery sessions finish (Some []) = ([], Inr [])"
proof (intro conjI)
  show "years_to_fetch (Some []) = [2010, 2011, 2012, 2013, 2014, 2015]" by (rule years_empty)
  show "gather_all model_validate net (years_to_fetch (Some [])) =
     map (\<lambda>i. snd (fetch_year model_validate (net i) (2010 + int i))) [0..<6]"
    by (simp add: years_empty default_gather upt_rec eval_nat_numeral)
  show "crawl_oscar_films repr model_validate net (Some []) = crawl_oscar_films repr model_validate net None"
    by (simp add: crawl_oscar_films_def years_to_fetch_def)
  show "crawl_oscar_films repr model_validate net (Some []) =
     (case collect repr
             [(2010, snd (fetch_year model_validate (net 0) 2010)),
              (2011, snd (fetch_year model_validate (net 1) 2011)),
              (2012, snd (fetch_year model_validate (net 2) 2012)),
              (2013, snd (fetch_year model_validate (net 3) 2013)),
              (2014, snd (fetch_year model_validate (net 4) 2014)),
              (2015, snd (fetch_year model_validate (net 5) 2015))] [] [] of
        (fs, errors) \<Rightarrow>
          if errors \<noteq> [] \<and> fs = []
          then Inl (RuntimeError (''AJAX crawl failed for all years: '' @ join ''; '' errors))
          else Inr fs)"
    unfolding crawl_oscar_films_def Let_def years_empty default_gather
    by (simp only: zip_Cons_Cons zip_Nil)
  show "crawl_oscar_films repr_class validate_flag net_up (Some []) =
     Inr [film_of_page 2010, film_of_page 2010, film_of_page 2010,
          film_of_page 2010, film_of_page 2010, film_of_page 2010]"
    unfolding crawl_oscar_films_def Let_def years_empty default_gather by (simp add: fetch_up)
  show "crawl_oscar_films repr_class validate_flag net_down (Some []) =
     Inl (RuntimeError
       (''AJAX crawl failed for all years: year=2010: ReadTimeout(timed out); '' @
        ''year=2011: ReadTimeout(timed out); year=2012: ReadTimeout(timed out); '' @
        ''year=2013: ReadTimeout(timed out); year=2014: ReadTimeout(timed out); '' @
        ''year=2015: ReadTimeout(timed out)''))"
    unfolding crawl_oscar_films_def Let_def years_empty default_gather
    by (simp add: fetch_down str_int_def digits.simps)
  show "crawl_oscar_films_selenium py_int discovery sessions finish (Some []) = ([], Inr [])"
    by (simp add: crawl_oscar_films_selenium_def fetch_all_selenium_def gather_def first_failure_def)
qed

section \<open>Browser collection\<close>

lemma gather_all_succeed:
  assumes "\<forall>i < length outcomes. \<not> isl (outcomes ! i)"
  shows "gather finish outcomes = Inr (map projr outcomes)"
proof -
  have "filter (\<lambda>i. isl (outcomes ! i)) [0..<length outcomes] = []"
    using assms by (simp add: filter_empty_conv)
  then show ?thesis by (simp add: gather_def first_failure_def)
qed

lemma gather_some_fail:
  assumes "i < length outcomes" and "isl (outcomes ! i)"
  shows "\<exists>k < length outcomes. isl (outcomes ! k) \<and> gather finish outcomes = Inl (projl (outcomes ! k)) \<and>
           (\<forall>j < length outcomes. isl (outcomes ! j) \<longrightarrow> finish k \<le> finish j)"
proof -
  let ?F = "filter (\<lambda>i. isl (outcomes ! i)) [0..<length outcomes]"
  let ?k = "arg_min_list finish ?F"
  from assms have mem: "i \<in> set ?F" by simp
  then have ne: "?F \<noteq> []" by (metis empty_iff list.set(1))
  then obtain a as where F: "?F = a # as" by (cases ?F) auto
  have k: "?k \<in> set ?F" using ne by (rule arg_min_list_in)
  have "finish ?k = Min (finish ` set ?F)" using ne by (rule f_arg_min_list_f)
  then have least: "\<forall>j \<in> set ?F. finish ?k \<le> finish j" by simp
  have "gather finish outcomes = Inl (projl (outcomes ! ?k))"
    unfolding gather_def first_failure_def using F by simp
  with k least show ?thesis by auto
qed

lemma length_outcomes:
  "length (map (\<lambda>(i, y). fetch_year_selenium py_int (sessions i) y) (enumerate 0 ys)) = length ys"
  by simp

lemma nth_outcomes:
  "i < length ys \<Longrightarrow>
   map (\<lambda>(i, y). fetch_year_selenium py_int (sessions i) y) (enumerate 0 ys) ! i
     = fetch_year_selenium py_int (sessions i) (ys ! i)"
  by (simp add: nth_enumerate_eq)

lemma fetch_all_selenium_succeed:
  assumes "\<forall>i < length ys. \<not> isl (fetch_year_selenium py_int (sessions i) (ys ! i))"
  shows "fetch_all_selenium py_int sessions finish ys =
           Inr (concat (map (\<lambda>(i, y). projr (fetch_year_selenium py_int (sessions i) y)) (enumerate 0 ys)))"
proof -
  let ?outs = "map (\<lambda>(i, y). fetch_year_selenium py_int (sessions i) y) (enumerate 0 ys)"
  have "\<forall>i < length ?outs. \<not> isl (?outs ! i)"
    using assms by (simp add: nth_enumerate_eq)
  then have "gather finish ?outs = Inr (map projr ?outs)" by (rule gather_all_succeed)
  then show ?thesis by (simp add: fetch_all_selenium_def comp_def case_prod_unfold)
qed

lemma fetch_all_selenium_fail:
  assumes "i < length ys" and "isl (fetch_year_selenium py_int (sessions i) (ys ! i))"
  shows "\<exists>k < length ys. isl (fetch_year_selenium py_int (sessions k) (ys ! k)) \<and>
           fetch_all_selenium py_int sessions finish ys =
             Inl (projl (fetch_year_selenium py_int (sessions k) (ys ! k))) \<and>
           (\<forall>j < length ys. isl (fetch_year_selenium py_int (sessions j) (ys ! j)) \<longrightarrow> finish k \<le> finish j)"
proof -
  let ?outs = "map (\<lambda>(i, y). fetch_year_selenium py_int (sessions i) y) (enumerate 0 ys)"
  have nth: "?outs ! j = fetch_year_selenium py_int (sessions j) (ys ! j)" if "j < length ys" for j
    using that by (rule nth_outcomes)
  have len: "length ?outs = length ys" by simp
  from assms nth have "i < length ?outs" "isl (?outs ! i)" by simp_all
  from gather_some_fail [OF this, of finish] obtain k where
    k: "k < length ?outs" "isl (?outs ! k)" "gather finish ?outs = Inl (projl (?outs ! k))"
       "\<forall>j < length ?outs. isl (?outs ! j) \<longrightarrow> finish k \<le> finish j"
    by blast
  from k(1) len have kl: "k < length ys" by simp
  have "fetch_all_selenium py_int sessions finish ys = Inl (projl (?outs ! k))"
    using k(3) by (simp add: fetch_all_selenium_def)
  with k kl nth len show ?thesis
    by (metis (no_types, lifting))
qed

lemma page_ok_fetch: "fetch_year_selenium parse_decimal page_ok y = Inr [film_of_page y]"
  by (simp add: fetch_year_selenium_def page_ok_def scrape_current_table_def parse_decimal_def
      make_film_def strip_def is_space_def film_of_page_def)

lemma page_crashed_fetch:
  "fetch_year_selenium parse_decimal page_crashed y = Inl (WebDriverException ''chrome not reachable'')"
  by (simp add: fetch_year_selenium_def page_crashed_def page_ok_def)

text \<open>
  C3, as the code has it. With explicit years the browser collection dispatches one fetch
  per year. When every fetch succeeds it returns their records, concatenated in the order
  of the years. When some fetch fails, the call fails, with the exception of one failed
  fetch itself, the one that completes first among the failed ones; there is no
  aggregated error and a single failure is enough.
\<close>

theorem selenium_explicit_years_fail_fast:
  "fst (crawl_oscar_films_selenium py_int discovery sessions finish (Some ys)) = map FetchYear ys \<and>
   ((\<forall>i < length ys. \<not> isl (fetch_year_selenium py_int (sessions i) (ys ! i))) \<longrightarrow>
      snd (crawl_oscar_films_selenium py_int discovery sessions finish (Some ys)) =
        Inr (concat (map (\<lambda>(i, y). projr (fetch_year_selenium py_int (sessions i) y)) (enumerate 0 ys)))) \<and>
   ((\<exists>i < length ys. isl (fetch_year_selenium py_int (sessions i) (ys ! i))) \<longrightarrow>
      (\<exists>k < length ys. isl (fetch_year_selenium py_int (sessions k) (ys ! k)) \<and>
         snd (crawl_oscar_films_selenium py_int discovery sessions finish (Some ys)) =
           Inl (projl (fetch_year_selenium py_int (sessions k) (ys ! k))) \<and>
         (\<forall>j < length ys. isl (fetch_year_selenium py_int (sessions j) (ys ! j)) \<longrightarrow> finish k \<le> finish j)))"
proof (intro conjI impI)
  show "fst (crawl_oscar_films_selenium py_int discovery sessions finish (Some ys)) = map FetchYear ys"
    by (simp add: crawl_oscar_films_selenium_def)
next
  assume "\<forall>i < length ys. \<not> isl (fetch_year_selenium py_int (sessions i) (ys ! i))"
  then show "snd (crawl_oscar_films_selenium py_int discovery sessions finish (Some ys)) =
        Inr (concat (map (\<lambda>(i, y). projr (fetch_year_selenium py_int (sessions i) y)) (enumerate 0 ys)))"
    by (simp add: crawl_oscar_films_selenium_def fetch_all_selenium_succeed)
next
  assume "\<exists>i < length ys. isl (fetch_year_selenium py_int (sessions i) (ys ! i))"
  then obtain i where "i < length ys" "isl (fetch_year_selenium py_int (sessions i) (ys ! i))" by blast
  with fetch_all_selenium_fail [where i = i and ys = ys and py_int = py_int and sessions = sessions and finish = finish]
  show "\<exists>k < length ys. isl (fetch_year_selenium py_int (sessions k) (ys ! k)) \<and>
         snd (crawl_oscar_films_selenium py_int discovery sessions finish (Some ys)) =
           Inl (projl (fetch_year_selenium py_int (sessions k) (ys ! k))) \<and>
         (\<forall>j < length ys. isl (fetch_year_selenium py_int (sessions j) (ys ! j)) \<longrightarrow> finish k \<le> finish j)"
    by (simp add: crawl_oscar_films_selenium_def)
qed

theorem selenium_explicit_years_fail_fast_witness:
  "\<not> isl (fetch_year_selenium parse_decimal (sessions_ok 0) 2010) \<and>
   \<not> isl (fetch_year_selenium parse_decimal (sessions_ok 1) 2011) \<and>
   crawl_oscar_films_selenium parse_decimal page_ok sessions_ok finish_in_order (Some [2010, 2011]) =
     ([FetchYear 2010, FetchYear 2011], Inr [film_of_page 2010, film_of_page 2011]) \<and>
   isl (fetch_year_selenium parse_decimal (sessions_second_crashes 1) 2011) \<and>
   isl (snd (crawl_oscar_films_selenium parse_decimal page_ok sessions_second_crashes finish_in_order
          (Some [2010, 2011])))"
proof -
  have ok: "\<forall>i < length [2010, 2011 :: int].
      \<not> isl (fetch_year_selenium parse_decimal (sessions_ok i) ([2010, 2011] ! i))"
    by (simp add: sessions_ok_def page_ok_fetch)
  have bad: "\<exists>i < length [2010, 2011 :: int].
      isl (fetch_year_selenium parse_decimal (sessions_second_crashes i) ([2010, 2011] ! i))"
    by (rule exI [of _ 1]) (simp add: sessions_second_crashes_def page_crashed_fetch)
  note good_run = selenium_explicit_years_fail_fast [of parse_decimal page_ok sessions_ok
      finish_in_order "[2010, 2011]"]
  note bad_run = selenium_explicit_years_fail_fast [of parse_decimal page_ok sessions_second_crashes
      finish_in_order "[2010, 2011]"]
  from good_run ok have
    "crawl_oscar_films_selenium parse_decimal page_ok sessions_ok finish_in_order (Some [2010, 2011]) =
       ([FetchYear 2010, FetchYear 2011], Inr [film_of_page 2010, film_of_page 2011])"
    by (simp add: prod_eq_iff enumerate_eq_zip upt_rec sessions_ok_def page_ok_fetch)
  moreover from bad_run bad have
    "isl (snd (crawl_oscar_films_selenium parse_decimal page_ok sessions_second_crashes finish_in_order
          (Some [2010, 2011])))"
    by auto
  ultimately show ?thesis
    by (simp add: sessions_ok_def sessions_second_crashes_def page_ok_fetch page_crashed_fetch)
qed

text \<open>
  The claim C3 as the specification states it fails: over 2010 and 2011, the fetch of
  2010 succeeds, the session of 2011 cannot be started, and the call fails, with the
  exception of that one partition.
\<close>

theorem selenium_single_failure_fails_call:
  "fetch_year_selenium parse_decimal (sessions_second_crashes 0) 2010 = Inr [film_of_page 2010] \<and>
   snd (crawl_oscar_films_selenium parse_decimal page_ok sessions_second_crashes finish_in_order
          (Some [2010, 2011])) = Inl (WebDriverException ''chrome not reachable'')"
  by (simp add: crawl_oscar_films_selenium_def fetch_all_selenium_def gather_def first_failure_def
      enumerate_eq_zip upt_rec sessions_second_crashes_def page_ok_fetch page_crashed_fetch)

text \<open>
  C7. Without explicit years the discovery is called exactly once. When it fails, its
  exception is the outcome and nothing is fetched. When it succeeds, the years fetched
  afterwards are the discovered ones without the active year, which is therefore not
  fetched again, and when those fetches succeed the result is the films of the discovery
  followed by the films of the remaining years, in their order.
\<close>

theorem discovery_runs_once_and_prefixes:
  "count_list (fst (crawl_oscar_films_selenium py_int discovery sessions finish None)) Discover = 1 \<and>
   (\<forall>e. discover_years_and_first_page py_int discovery = Inl e \<longrightarrow>
      crawl_oscar_films_selenium py_int discovery sessions finish None = ([Discover], Inl e)) \<and>
   (\<forall>years_found active_year first_films.
      discover_years_and_first_page py_int discovery = Inr (years_found, active_year, first_films) \<longrightarrow>
        fst (crawl_oscar_films_selenium py_int discovery sessions finish None) =
          Discover # map FetchYear (filter (\<lambda>y. y \<noteq> active_year) years_found) \<and>
        FetchYear active_year \<notin> set (fst (crawl_oscar_films_selenium py_int discovery sessions finish None)) \<and>
        ((\<forall>i < length (filter (\<lambda>y. y \<noteq> active_year) years_found).
             \<not> isl (fetch_year_selenium py_int (sessions i) (filter (\<lambda>y. y \<noteq> active_year) years_found ! i))) \<longrightarrow>
           snd (crawl_oscar_films_selenium py_int discovery sessions finish None) =
             Inr (first_films @
                  concat (map (\<lambda>(i, y). projr (fetch_year_selenium py_int (sessions i) y))
                            (enumerate 0 (filter (\<lambda>y. y \<noteq> active_year) years_found))))))"
proof (intro conjI allI impI)
  show "count_list (fst (crawl_oscar_films_selenium py_int discovery sessions finish None)) Discover = 1"
    by (auto simp add: crawl_oscar_films_selenium_def Let_def count_list_0_iff split: sum.splits prod.splits)
next
  fix e assume "discover_years_and_first_page py_int discovery = Inl e"
  then show "crawl_oscar_films_selenium py_int discovery sessions finish None = ([Discover], Inl e)"
    by (simp add: crawl_oscar_films_selenium_def)
next
  fix years_found active_year first_films
  assume d: "discover_years_and_first_page py_int discovery = Inr (years_found, active_year, first_films)"
  let ?rem = "filter (\<lambda>y. y \<noteq> active_year) years_found"
  show calls: "fst (crawl_oscar_films_selenium py_int discovery sessions finish None) =
          Discover # map FetchYear ?rem"
    using d by (simp add: crawl_oscar_films_selenium_def Let_def)
  show "FetchYear active_year \<notin> set (fst (crawl_oscar_films_selenium py_int discovery sessions finish None))"
    unfolding calls by auto
  assume ok: "\<forall>i < length ?rem. \<not> isl (fetch_year_selenium py_int (sessions i) (?rem ! i))"
  show "snd (crawl_oscar_films_selenium py_int discovery sessions finish None) =
             Inr (first_films @
                  concat (map (\<lambda>(i, y). projr (fetch_year_selenium py_int (sessions i) y))
                            (enumerate 0 ?rem)))"
    using d fetch_all_selenium_succeed [OF ok, of finish]
    by (simp add: crawl_oscar_films_selenium_def Let_def)
qed

lemma page_ok_discovery:
  "discover_years_and_first_page parse_decimal page_ok = Inr ([2015, 2014], 2015, [film_of_page 2015])"
  by (simp add: discover_years_and_first_page_def page_ok_def scrape_current_table_def
      parse_decimal_def make_film_def strip_def is_space_def film_of_page_def split_ws_def
      str_int_def digits.simps)

theorem discovery_runs_once_and_prefixes_witness:
  "discover_years_and_first_page parse_decimal page_ok = Inr ([2015, 2014], 2015, [film_of_page 2015]) \<and>
   \<not> isl (fetch_year_selenium parse_decimal (sessions_ok 0) 2014) \<and>
   crawl_oscar_films_selenium parse_decimal page_ok sessions_ok finish_in_order None =
     ([Discover, FetchYear 2014], Inr [film_of_page 2015, film_of_page 2014])"
proof -
  note d = page_ok_discovery
  note run = discovery_runs_once_and_prefixes [of parse_decimal page_ok sessions_ok finish_in_order,
      THEN conjunct2, THEN conjunct2, rule_format, OF d]
  from run have
    "crawl_oscar_films_selenium parse_decimal page_ok sessions_ok finish_in_order None =
     ([Discover, FetchYear 2014], Inr [film_of_page 2015, film_of_page 2014])"
    by (simp add: prod_eq_iff sessions_ok_def page_ok_fetch enumerate_eq_zip upt_rec)
  with d show ?thesis by (simp add: sessions_ok_def page_ok_fetch)
qed

section \<open>Job tracker\<close>

lemma invariant_init: "invariant init"
  by (simp add: invariant_def init_def)

lemma fresh_consistent: "fresh j \<Longrightarrow> consistent j"
  by (simp add: fresh_def consistent_def)

lemma fresh_running: "fresh j \<Longrightarrow> consistent (j\<lparr>status := running, updated_at := t\<rparr>)"
  by (simp add: fresh_def consistent_def)

lemma fresh_completed:
  "fresh j \<Longrightarrow> consistent (j\<lparr>status := completed, updated_at := t, total_films := int (length fs),
                                 data_file := Some p, films := Some fs\<rparr>)"
  by (simp add: fresh_def consistent_def)

lemma fresh_failed:
  "fresh j \<Longrightarrow> consistent (j\<lparr>status := failed, updated_at := t, error := Some m\<rparr>)"
  by (simp add: fresh_def consistent_def)

lemma end_consistent:
  "fresh job \<Longrightarrow> run_crawl_job_end w js job jid m yrs now jid = Some j \<Longrightarrow> consistent j"
  by (auto simp add: run_crawl_job_end_def fresh_completed fresh_failed split: sum.splits prod.splits)

lemma end_other:
  "k \<noteq> jid \<Longrightarrow> run_crawl_job_end w js job jid m yrs now k = js k"
  by (simp add: run_crawl_job_end_def split: sum.splits prod.splits)

lemma step_invariant:
  assumes "invariant s" and "step s a = Some s'"
  shows "invariant s'"
proof (cases a)
  case (Submit uuid now body)
  with assms(2) have new: "jobs s uuid = None"
    and s': "s' = snd (trigger_oscar_crawl s uuid now body)"
    by (auto split: option.splits)
  have "fresh \<lparr>job_id = uuid, status = pending, created_at = now, updated_at = now,
                 total_films = 0, data_file = None, error = None, films = None\<rparr>"
    by (simp add: fresh_def)
  with assms(1) new show ?thesis
    unfolding s' invariant_def trigger_oscar_crawl_def Let_def
    by (auto simp add: fresh_consistent)
next
  case (Begin jid now)
  from assms(2) Begin obtain m yrs where t: "tasks s jid = Some (Scheduled m yrs)"
    by (auto split: option.splits task.splits)
  with assms(1) obtain j where j: "jobs s jid = Some j" "fresh j"
    unfolding invariant_def by blast
  with assms(2) Begin t have s': "s' = s\<lparr>jobs := (jobs s)(jid \<mapsto> j\<lparr>status := running, updated_at := now\<rparr>),
                                         tasks := (tasks s)(jid \<mapsto> Awaiting j m yrs)\<rparr>"
    by (simp add: run_crawl_job_begin_def)
  from assms(1) j show ?thesis
    unfolding s' invariant_def
    by (auto simp add: fresh_running)
next
  case (End jid now w)
  from assms(2) End obtain job m yrs where t: "tasks s jid = Some (Awaiting job m yrs)"
    by (auto split: option.splits task.splits)
  with assms(1) have f: "fresh job" unfolding invariant_def by blast
  from assms(2) End t have s': "s' = s\<lparr>jobs := run_crawl_job_end w (jobs s) job jid m yrs now,
                                        tasks := (tasks s)(jid := None)\<rparr>"
    by simp
  show ?thesis unfolding invariant_def
  proof (intro conjI allI impI)
    fix k j assume "jobs s' k = Some j"
    then show "consistent j"
      using assms(1) f end_consistent [of job w "jobs s" jid m yrs now j] end_other [of k jid w "jobs s" job m yrs now]
      unfolding s' invariant_def by (cases "k = jid") auto
  next
    fix k m' yrs' assume "tasks s' k = Some (Scheduled m' yrs')"
    then have k: "k \<noteq> jid" "tasks s k = Some (Scheduled m' yrs')"
      unfolding s' by (auto split: if_splits)
    with assms(1) obtain j where "jobs s k = Some j" "fresh j" unfolding invariant_def by blast
    with k show "\<exists>j. jobs s' k = Some j \<and> fresh j"
      unfolding s' by (simp add: end_other)
  next
    fix k job' m' yrs' assume "tasks s' k = Some (Awaiting job' m' yrs')"
    then have "tasks s k = Some (Awaiting job' m' yrs')"
      unfolding s' by (auto split: if_splits)
    with assms(1) show "fresh job'" unfolding invariant_def by blast
  qed
qed

lemma run_invariant: "invariant s \<Longrightarrow> run s as = Some s' \<Longrightarrow> invariant s'"
proof (induction as arbitrary: s)
  case Nil
  then show ?case by simp
next
  case (Cons a as)
  then show ?case by (auto split: option.splits dest: step_invariant)
qed

text \<open>
  C5. In every state the process reaches, whatever the interleaving of submissions and
  background tasks, every stored job is consistent: it has films exactly when it is
  completed and an error exactly when it is failed, the total of a completed job is the
  number of its films, and the total of a pending or running job is 0.
\<close>

theorem job_snapshots_consistent:
  assumes "run init acts = Some s" and "jobs s jid = Some j"
  shows "consistent j"
proof -
  from invariant_init assms(1) have "invariant s" by (rule run_invariant)
  with assms(2) show ?thesis unfolding invariant_def by blast
qed

lemma crawl_up_2010: "crawl_and_store world_up ''a'' ajax (Some [2010]) = Inr ([film_of_page 2010], ''/data/oscar_a.json'')"
  by (simp add: crawl_and_store_def run_crawl_def world_up_def crawl_oscar_films_def
      years_to_fetch_def gather_all_def fetch_year_unfold attempt_body_def net_up_def
      raise_for_status_def is_success_def validate_flag_def job_file_path_def)

theorem job_snapshots_consistent_witness:
  "\<exists>s j. run init [Submit ''a'' 1 request_2010, Begin ''a'' 2, End ''a'' 3 world_up] = Some s \<and>
     jobs s ''a'' = Some j \<and> status j = completed \<and> films j = Some [film_of_page 2010] \<and>
     total_films j = 1 \<and> error j = None \<and> consistent j"
proof -
  let ?acts = "[Submit ''a'' 1 request_2010, Begin ''a'' 2, End ''a'' 3 world_up]"
  let ?j = "\<lparr>job_id = ''a'', status = completed, created_at = 1, updated_at = 3, total_films = 1,
             data_file = Some ''/data/oscar_a.json'', error = None, films = Some [film_of_page 2010]\<rparr>"
  have "\<exists>s. run init ?acts = Some s \<and> jobs s ''a'' = Some ?j"
    by (simp add: init_def trigger_oscar_crawl_def Let_def request_2010_def run_crawl_job_begin_def
        run_crawl_job_end_def crawl_up_2010)
  then obtain s where s: "run init ?acts = Some s" "jobs s ''a'' = Some ?j" by blast
  from job_snapshots_consistent [OF s] have "consistent ?j" .
  with s show ?thesis by auto
qed

text \<open>
  C6. A submission returns the job at once, pending, with no films and no error, stored
  under its id, with a background task scheduled; the crawl has no part in it. The
  background run of a stored job never raises: whatever exception the crawl or the
  writing of the file raises is caught and recorded in the snapshot, as status
  \<open>failed\<close> with \<open>error\<close> the \<open>repr\<close> of the exception.
\<close>

theorem submit_pending_failure_recorded:
  "fst (trigger_oscar_crawl s uuid now body) =
     \<lparr>job_id = uuid, status = pending, created_at = now, updated_at = now,
      total_films = 0, data_file = None, error = None, films = None\<rparr> \<and>
   jobs (snd (trigger_oscar_crawl s uuid now body)) uuid = Some (fst (trigger_oscar_crawl s uuid now body)) \<and>
   tasks (snd (trigger_oscar_crawl s uuid now body)) uuid = Some (Scheduled (req_mode body) (req_years body)) \<and>
   (\<forall>job. js jid = Some job \<longrightarrow>
      (\<exists>js'. run_crawl_job w js jid m yrs t1 t2 = Inr js' \<and>
         (\<forall>e. crawl_and_store w jid m yrs = Inl e \<longrightarrow>
            js' jid = Some (job\<lparr>status := failed, updated_at := t2, error := Some (w_repr w e)\<rparr>))))"
  by (auto simp add: trigger_oscar_crawl_def Let_def run_crawl_job_def run_crawl_job_begin_def
      run_crawl_job_end_def)

theorem submit_pending_failure_recorded_witness:
  "status (fst (trigger_oscar_crawl init ''a'' 1 request_2010)) = pending \<and>
   crawl_and_store world_down ''a'' ajax (Some [2010]) =
     Inl (RuntimeError ''AJAX crawl failed for all years: year=2010: ReadTimeout(timed out)'') \<and>
   (\<exists>js'. run_crawl_job world_down (jobs (snd (trigger_oscar_crawl init ''a'' 1 request_2010))) ''a''
             ajax (Some [2010]) 2 3 = Inr js' \<and>
           map_option status (js' ''a'') = Some failed \<and>
           map_option error (js' ''a'') =
             Some (Some ''RuntimeError(AJAX crawl failed for all years: year=2010: ReadTimeout(timed out))''))"
proof -
  let ?job = "fst (trigger_oscar_crawl init ''a'' 1 request_2010)"
  let ?js = "jobs (snd (trigger_oscar_crawl init ''a'' 1 request_2010))"
  let ?e = "RuntimeError ''AJAX crawl failed for all years: year=2010: ReadTimeout(timed out)''"
  have stored: "?js ''a'' = Some ?job"
    by (simp add: trigger_oscar_crawl_def Let_def)
  have fails: "crawl_and_store world_down ''a'' ajax (Some [2010]) = Inl ?e"
    by (simp add: crawl_and_store_def run_crawl_def world_down_def world_up_def crawl_oscar_films_def
        years_to_fetch_def gather_all_def fetch_down str_2010)
  from submit_pending_failure_recorded [of init "''a''" 1 request_2010 ?js "''a''" world_down ajax
      "Some [2010]" 2 3] stored fails
  obtain js' where run: "run_crawl_job world_down ?js ''a'' ajax (Some [2010]) 2 3 = Inr js'"
    and rec: "js' ''a'' = Some (?job\<lparr>status := failed, updated_at := 3, error := Some (w_repr world_down ?e)\<rparr>)"
    by blast
  from rec have "map_option status (js' ''a'') = Some failed"
    and "map_option error (js' ''a'') =
           Some (Some ''RuntimeError(AJAX crawl failed for all years: year=2010: ReadTimeout(timed out))'')"
    by (simp_all add: world_down_def world_up_def)
  with run fails show ?thesis
    by (auto simp add: trigger_oscar_crawl_def Let_def)
qed

end
